theory Spec2Isabelle
  imports Complex_Main
begin

section \<open>JavaScript numbers\<close>

text \<open>
  The telemetry engine of the speedometer computes with JavaScript numbers. A number is
  modelled as a finite value, one of the two infinities, or NaN. Finite values are real
  numbers and arithmetic on them is exact: rounding, overflow of a finite result to an
  infinity and the sign of zero are left out of the model. Every guard of the source
  (\<^verbatim>\<open>Number.isFinite\<close>, comparisons, truthiness) is kept as the source writes it.
  A value that may be \<^verbatim>\<open>null\<close> is a \<open>jsnum option\<close>, with \<open>None\<close> for \<^verbatim>\<open>null\<close>.
\<close>

datatype jsnum = Num real | PosInf | NegInf | NaN

type_synonym jsval = "jsnum option"

text \<open>\<^verbatim>\<open>Number.isFinite(v)\<close>: false for null, NaN and the infinities.\<close>

fun Number_isFinite :: "jsval \<Rightarrow> bool" where
  "Number_isFinite (Some (Num x)) = True"
| "Number_isFinite v = False"

text \<open>The comparisons \<^verbatim>\<open><\<close>, \<^verbatim>\<open><=\<close>, \<^verbatim>\<open>>\<close>, \<^verbatim>\<open>>=\<close>: false as soon as one side is NaN.\<close>

fun js_lt :: "jsnum \<Rightarrow> jsnum \<Rightarrow> bool" where
  "js_lt (Num a) (Num b) = (a < b)"
| "js_lt (Num a) PosInf = True"
| "js_lt NegInf (Num b) = True"
| "js_lt NegInf PosInf = True"
| "js_lt a b = False"

fun js_le :: "jsnum \<Rightarrow> jsnum \<Rightarrow> bool" where
  "js_le (Num a) (Num b) = (a \<le> b)"
| "js_le NaN b = False"
| "js_le a NaN = False"
| "js_le a PosInf = True"
| "js_le NegInf b = True"
| "js_le a b = False"

definition js_gt :: "jsnum \<Rightarrow> jsnum \<Rightarrow> bool" where
  "js_gt a b = js_lt b a"

definition js_ge :: "jsnum \<Rightarrow> jsnum \<Rightarrow> bool" where
  "js_ge a b = js_le b a"

text \<open>Truthiness of a number: \<^verbatim>\<open>0\<close> and NaN are falsy.\<close>

fun js_truthy :: "jsnum \<Rightarrow> bool" where
  "js_truthy (Num x) = (x \<noteq> 0)"
| "js_truthy NaN = False"
| "js_truthy a = True"

fun js_neg :: "jsnum \<Rightarrow> jsnum" where
  "js_neg (Num x) = Num (- x)"
| "js_neg PosInf = NegInf"
| "js_neg NegInf = PosInf"
| "js_neg NaN = NaN"

fun js_add :: "jsnum \<Rightarrow> jsnum \<Rightarrow> jsnum" where
  "js_add (Num a) (Num b) = Num (a + b)"
| "js_add NaN b = NaN"
| "js_add a NaN = NaN"
| "js_add PosInf NegInf = NaN"
| "js_add NegInf PosInf = NaN"
| "js_add PosInf b = PosInf"
| "js_add NegInf b = NegInf"
| "js_add a PosInf = PosInf"
| "js_add a NegInf = NegInf"

definition js_sub :: "jsnum \<Rightarrow> jsnum \<Rightarrow> jsnum" where
  "js_sub a b = js_add a (js_neg b)"

text \<open>The sign of an infinite product or quotient, from the sign of the finite factor.\<close>

definition signed_inf :: "bool \<Rightarrow> jsnum" where
  "signed_inf positive = (if positive then PosInf else NegInf)"

fun js_mul :: "jsnum \<Rightarrow> jsnum \<Rightarrow> jsnum" where
  "js_mul (Num a) (Num b) = Num (a * b)"
| "js_mul NaN b = NaN"
| "js_mul a NaN = NaN"
| "js_mul (Num a) PosInf = (if a = 0 then NaN else signed_inf (0 < a))"
| "js_mul (Num a) NegInf = (if a = 0 then NaN else signed_inf (a < 0))"
| "js_mul PosInf (Num b) = (if b = 0 then NaN else signed_inf (0 < b))"
| "js_mul NegInf (Num b) = (if b = 0 then NaN else signed_inf (b < 0))"
| "js_mul PosInf PosInf = PosInf"
| "js_mul NegInf NegInf = PosInf"
| "js_mul PosInf NegInf = NegInf"
| "js_mul NegInf PosInf = NegInf"

text \<open>Division; a zero divisor is the positive zero.\<close>

fun js_div :: "jsnum \<Rightarrow> jsnum \<Rightarrow> jsnum" where
  "js_div (Num a) (Num b) =
     (if b \<noteq> 0 then Num (a / b) else if a = 0 then NaN else signed_inf (0 < a))"
| "js_div NaN b = NaN"
| "js_div a NaN = NaN"
| "js_div (Num a) b = Num 0"
| "js_div PosInf (Num b) = signed_inf (0 \<le> b)"
| "js_div NegInf (Num b) = signed_inf (b < 0)"
| "js_div a b = NaN"

text \<open>\<^verbatim>\<open>Math.abs\<close>, \<^verbatim>\<open>Math.sin\<close>, \<^verbatim>\<open>Math.cos\<close>, \<^verbatim>\<open>Math.sqrt\<close>, \<^verbatim>\<open>x ** 2\<close> and \<^verbatim>\<open>Math.atan2\<close>.\<close>

fun Math_abs :: "jsnum \<Rightarrow> jsnum" where
  "Math_abs (Num x) = Num \<bar>x\<bar>"
| "Math_abs NaN = NaN"
| "Math_abs a = PosInf"

fun Math_sin :: "jsnum \<Rightarrow> jsnum" where
  "Math_sin (Num x) = Num (sin x)"
| "Math_sin a = NaN"

fun Math_cos :: "jsnum \<Rightarrow> jsnum" where
  "Math_cos (Num x) = Num (cos x)"
| "Math_cos a = NaN"

fun Math_sqrt :: "jsnum \<Rightarrow> jsnum" where
  "Math_sqrt (Num x) = (if x < 0 then NaN else Num (sqrt x))"
| "Math_sqrt PosInf = PosInf"
| "Math_sqrt a = NaN"

definition js_square :: "jsnum \<Rightarrow> jsnum" where
  "js_square a = js_mul a a"

fun Math_atan2 :: "jsnum \<Rightarrow> jsnum \<Rightarrow> jsnum" where
  "Math_atan2 (Num y) (Num x) =
     (if 0 < x then Num (arctan (y / x))
      else if x < 0 then (if 0 \<le> y then Num (arctan (y / x) + pi) else Num (arctan (y / x) - pi))
      else if 0 < y then Num (pi / 2)
      else if y < 0 then Num (- pi / 2)
      else Num 0)"
| "Math_atan2 NaN x = NaN"
| "Math_atan2 y NaN = NaN"
| "Math_atan2 (Num y) PosInf = Num 0"
| "Math_atan2 (Num y) NegInf = (if 0 \<le> y then Num pi else Num (- pi))"
| "Math_atan2 PosInf (Num x) = Num (pi / 2)"
| "Math_atan2 NegInf (Num x) = Num (- pi / 2)"
| "Math_atan2 PosInf PosInf = Num (pi / 4)"
| "Math_atan2 PosInf NegInf = Num (3 * pi / 4)"
| "Math_atan2 NegInf PosInf = Num (- pi / 4)"
| "Math_atan2 NegInf NegInf = Num (- 3 * pi / 4)"

section \<open>Constants\<close>

definition EARTH_RADIUS_M :: real where
  "EARTH_RADIUS_M = 6371000"

definition QUARTER_MILE_M :: real where
  "QUARTER_MILE_M = 402.336"

definition ZERO_TO_SIXTY_TARGET_MS :: real where
  "ZERO_TO_SIXTY_TARGET_MS = 26.8224"

section \<open>Distance store\<close>

text \<open>
  \<^verbatim>\<open>createDistanceStore\<close>: the closure variable \<^verbatim>\<open>state = { total }\<close>. An operation of
  a store takes the store's state and returns the new one; what the source's \<^verbatim>\<open>update\<close>
  returns is the \<^verbatim>\<open>get\<close> of the new state. Persisting the state has no effect on it.
\<close>

record distance_state =
  total_meters :: real

definition distance_defaults :: distance_state where
  "distance_defaults = \<lparr>total_meters = 0\<rparr>"

definition distance_update :: "distance_state \<Rightarrow> jsnum \<Rightarrow> distance_state" where
  "distance_update state delta =
     (if Number_isFinite (Some delta) \<and> js_gt delta (Num 0)
      then (case delta of Num d \<Rightarrow> state\<lparr>total_meters := total_meters state + d\<rparr> | _ \<Rightarrow> state)
      else state)"

definition distance_reset :: "distance_state \<Rightarrow> distance_state" where
  "distance_reset state = distance_defaults"

definition distance_get :: "distance_state \<Rightarrow> jsnum" where
  "distance_get state = Num (total_meters state)"

section \<open>Travel delta and speed resolution\<close>

text \<open>A location snapshot \<^verbatim>\<open>{ lat, lon, time }\<close>; \<^verbatim>\<open>lastPosition\<close> is one of them or null.\<close>

record snapshot =
  lat :: jsnum
  lon :: jsnum
  time :: jsnum

definition toRadians :: "jsnum \<Rightarrow> jsnum" where
  "toRadians v = js_div (js_mul v (Num pi)) (Num 180)"

definition computeTravelDelta :: "snapshot option \<Rightarrow> snapshot \<Rightarrow> jsnum" where
  "computeTravelDelta lastPosition cur =
     (case lastPosition of
        None \<Rightarrow> Num 0
      | Some prev \<Rightarrow>
          (let dLat = toRadians (js_sub (lat cur) (lat prev));
               dLon = toRadians (js_sub (lon cur) (lon prev));
               lat1 = toRadians (lat prev);
               lat2 = toRadians (lat cur);
               a = js_add (js_square (Math_sin (js_div dLat (Num 2))))
                     (js_mul (js_mul (Math_cos lat1) (Math_cos lat2))
                        (js_square (Math_sin (js_div dLon (Num 2)))));
               c = js_mul (Num 2) (Math_atan2 (Math_sqrt a) (Math_sqrt (js_sub (Num 1) a)))
           in js_mul (Num EARTH_RADIUS_M) c))"

definition resolveSpeed :: "snapshot option \<Rightarrow> jsval \<Rightarrow> jsnum \<Rightarrow> snapshot \<Rightarrow> jsval" where
  "resolveSpeed lastPosition rawSpeed distanceDelta snap =
     (if Number_isFinite rawSpeed then rawSpeed
      else case lastPosition of
        None \<Rightarrow> None
      | Some prev \<Rightarrow>
          (let dt = js_sub (time snap) (time prev)
           in if \<not> js_truthy dt \<or> js_le dt (Num 0) then None
              else if \<not> Number_isFinite (Some distanceDelta) then None
              else Some (js_div distanceDelta dt)))"

section \<open>Speed statistics store\<close>

text \<open>
  \<^verbatim>\<open>createSpeedStatsStore\<close>: \<^verbatim>\<open>state = { count, total, min, max }\<close>. The count starts
  at 0 and is only incremented, so it is a natural number; total, min and max only ever
  receive finite speeds.
\<close>

record speed_stats_state =
  count :: nat
  total_speed :: real
  min_speed :: "real option"
  max_speed :: "real option"

record speed_stats_view =
  view_min :: "real option"
  view_max :: "real option"
  average :: "real option"

definition speed_stats_defaults :: speed_stats_state where
  "speed_stats_defaults = \<lparr>count = 0, total_speed = 0, min_speed = None, max_speed = None\<rparr>"

definition speed_stats_get :: "speed_stats_state \<Rightarrow> speed_stats_view" where
  "speed_stats_get state =
     \<lparr>view_min = min_speed state, view_max = max_speed state,
      average = (if count state \<noteq> 0 then Some (total_speed state / real (count state)) else None)\<rparr>"

definition speed_stats_update :: "speed_stats_state \<Rightarrow> jsval \<Rightarrow> speed_stats_state" where
  "speed_stats_update state speed =
     (if \<not> Number_isFinite speed then state
      else case speed of
        Some (Num v) \<Rightarrow>
          state\<lparr>count := count state + 1,
                total_speed := total_speed state + v,
                min_speed := Some (case min_speed state of None \<Rightarrow> v | Some m \<Rightarrow> min m v),
                max_speed := Some (case max_speed state of None \<Rightarrow> v | Some m \<Rightarrow> max m v)\<rparr>
      | _ \<Rightarrow> state)"

definition speed_stats_reset :: "speed_stats_state \<Rightarrow> speed_stats_state" where
  "speed_stats_reset state = speed_stats_defaults"

section \<open>Acceleration store\<close>

text \<open>
  \<^verbatim>\<open>createAccelerationStore\<close>: the persisted \<^verbatim>\<open>state = { lastSpeed, lastTime, peakAccel,
  peakDecel }\<close> and the transient closure variable \<^verbatim>\<open>current\<close>. The persisted fields are
  assigned finite numbers only, so each is a real or null; \<^verbatim>\<open>current\<close> is whatever the
  division gives. The field \<open>lastSampleTime\<close> is the source's \<^verbatim>\<open>state.lastTime\<close>.
\<close>

record accel_state =
  lastSpeed :: "real option"
  lastSampleTime :: "real option"
  peakAccel :: "real option"
  peakDecel :: "real option"
  current :: jsval

record accel_view =
  view_current :: jsval
  currentDecel :: jsval
  view_peakAccel :: "real option"
  view_peakDecel :: "real option"

definition accel_defaults :: accel_state where
  "accel_defaults =
     \<lparr>lastSpeed = None, lastSampleTime = None, peakAccel = None, peakDecel = None, current = None\<rparr>"

definition accel_get :: "accel_state \<Rightarrow> accel_view" where
  "accel_get state =
     (let decel =
            (case current state of
               None \<Rightarrow> None
             | Some c \<Rightarrow>
                 if js_truthy c \<and> js_lt c (Num 0) then Some (Math_abs c)
                 else if c = Num 0 then Some (Num 0) else None)
      in \<lparr>view_current = (if Number_isFinite (current state) then current state else None),
          currentDecel = (if Number_isFinite decel then decel else None),
          view_peakAccel = peakAccel state,
          view_peakDecel = peakDecel state\<rparr>)"

text \<open>The two peak assignments, made when \<^verbatim>\<open>Number.isFinite(current)\<close> holds.\<close>

definition accel_peaks :: "accel_state \<Rightarrow> real \<Rightarrow> accel_state" where
  "accel_peaks state c =
     (let state1 =
            (if 0 < c
             then state\<lparr>peakAccel := Some (case peakAccel state of None \<Rightarrow> c | Some p \<Rightarrow> max p c)\<rparr>
             else state)
      in if c < 0
         then (let magnitude = \<bar>c\<bar>
               in state1\<lparr>peakDecel :=
                    Some (case peakDecel state1 of None \<Rightarrow> magnitude | Some p \<Rightarrow> max p magnitude)\<rparr>)
         else state1)"

text \<open>
  The first \<^verbatim>\<open>if\<close> of \<^verbatim>\<open>update\<close>: with a finite sample and a stored baseline, \<^verbatim>\<open>current\<close>
  is assigned only when \<^verbatim>\<open>dt > 0\<close>; without them it is set to null.
\<close>

definition accel_measure :: "accel_state \<Rightarrow> jsval \<Rightarrow> jsnum \<Rightarrow> accel_state" where
  "accel_measure state speed timestamp =
     (case (speed, timestamp, lastSpeed state, lastSampleTime state) of
        (Some (Num sp), Num ts, Some ls, Some lt) \<Rightarrow>
          (let dt = js_sub (Num ts) (Num lt)
           in if js_gt dt (Num 0)
              then (let cur = js_div (js_sub (Num sp) (Num ls)) dt;
                        state1 = state\<lparr>current := Some cur\<rparr>
                    in case cur of Num c \<Rightarrow> accel_peaks state1 c | _ \<Rightarrow> state1)
              else state)
      | _ \<Rightarrow> state\<lparr>current := None\<rparr>)"

definition accel_update :: "accel_state \<Rightarrow> jsval \<Rightarrow> jsnum \<Rightarrow> accel_state" where
  "accel_update state speed timestamp =
     (let state1 = accel_measure state speed timestamp
      in case (speed, timestamp) of
           (Some (Num sp), Num ts) \<Rightarrow> state1\<lparr>lastSpeed := Some sp, lastSampleTime := Some ts\<rparr>
         | _ \<Rightarrow> state1)"

definition accel_reset :: "accel_state \<Rightarrow> accel_state" where
  "accel_reset state = accel_defaults"

section \<open>Quarter-mile tracker\<close>

text \<open>
  The persisted \<^verbatim>\<open>state = { bestTime, lastTime }\<close> of both run trackers: each time is
  stored after a check that it is a finite number, so it is a real or null.
\<close>

record run_times =
  bestTime :: "real option"
  lastTime :: "real option"

text \<open>
  \<^verbatim>\<open>runStart = { distance, time }\<close> holds the arguments of the arming call as they came.
  The status strings are \<^verbatim>\<open>"Standby"\<close>, \<^verbatim>\<open>"Running"\<close>, \<^verbatim>\<open>"Completed"\<close> and
  \<^verbatim>\<open>"Running (N m left)"\<close>; the last one is \<open>RunningLeft\<close> with the remaining distance
  that the string prints.
\<close>

record run_start =
  run_distance :: jsnum
  run_time :: jsnum

datatype quarter_status = Standby | Running | RunningLeft jsnum | Completed

record quarter_state = run_times +
  runStart :: "run_start option"
  status :: quarter_status

record run_view =
  view_status :: quarter_status
  view_lastTime :: "real option"
  view_bestTime :: "real option"

definition quarter_defaults :: quarter_state where
  "quarter_defaults = \<lparr>bestTime = None, lastTime = None, runStart = None, status = Standby\<rparr>"

definition shouldArmRun :: "jsval \<Rightarrow> bool" where
  "shouldArmRun speed =
     (Number_isFinite speed \<and> (case speed of Some v \<Rightarrow> js_ge v (Num 1.0) | None \<Rightarrow> False))"

text \<open>The assignment of the best time shared by the two trackers.\<close>

definition improved_best :: "real option \<Rightarrow> real \<Rightarrow> real option" where
  "improved_best best elapsed =
     (case best of None \<Rightarrow> Some elapsed
      | Some b \<Rightarrow> if elapsed < b then Some elapsed else Some b)"

definition quarter_get :: "quarter_state \<Rightarrow> run_view" where
  "quarter_get s = \<lparr>view_status = status s, view_lastTime = lastTime s, view_bestTime = bestTime s\<rparr>"

definition quarter_update :: "quarter_state \<Rightarrow> jsnum \<Rightarrow> jsval \<Rightarrow> jsnum \<Rightarrow> quarter_state" where
  "quarter_update s totalDistance speed timestamp =
     (if shouldArmRun speed \<and> runStart s = None
      then s\<lparr>runStart := Some \<lparr>run_distance = totalDistance, run_time = timestamp\<rparr>,
             status := Running\<rparr>
      else case runStart s of
        None \<Rightarrow> s\<lparr>status := Standby\<rparr>
      | Some start \<Rightarrow>
          (let covered = js_sub totalDistance (run_distance start)
           in if js_ge covered (Num QUARTER_MILE_M)
              then (let elapsed = js_sub timestamp (run_time start)
                    in if Number_isFinite (Some elapsed) \<and> js_gt elapsed (Num 0)
                       then (case elapsed of
                               Num e \<Rightarrow>
                                 s\<lparr>lastTime := Some e, bestTime := improved_best (bestTime s) e,
                                   status := Completed, runStart := None\<rparr>
                             | _ \<Rightarrow> s\<lparr>status := Standby, runStart := None\<rparr>)
                       else s\<lparr>status := Standby, runStart := None\<rparr>)
              else if speed \<noteq> None \<and> Number_isFinite speed
                      \<and> (case speed of Some v \<Rightarrow> js_lt v (Num 0.5) | None \<Rightarrow> False)
              then s\<lparr>status := Standby, runStart := None\<rparr>
              else (let remaining = js_sub (Num QUARTER_MILE_M) covered
                    in s\<lparr>status := (if js_gt remaining (Num 0) then RunningLeft remaining
                                     else Running)\<rparr>)))"

definition quarter_reset :: "quarter_state \<Rightarrow> quarter_state" where
  "quarter_reset s = quarter_defaults"

section \<open>Zero-to-sixty tracker\<close>

text \<open>
  The phase strings \<^verbatim>\<open>"idle"\<close>, \<^verbatim>\<open>"armed"\<close>, \<^verbatim>\<open>"running"\<close>, \<^verbatim>\<open>"cooldown"\<close> are the only
  values the source assigns to \<^verbatim>\<open>phase\<close>, so the \<^verbatim>\<open>default\<close> branch of the switch has no
  case here. \<^verbatim>\<open>startTime\<close> is assigned a finite timestamp or null; the subtraction
  \<^verbatim>\<open>timestamp - startTime\<close> reads null as 0.
\<close>

datatype zero_sixty_phase = idle | armed | running | cooldown

record zero_sixty_state = run_times +
  phase :: zero_sixty_phase
  startTime :: "real option"

definition zero_sixty_defaults :: zero_sixty_state where
  "zero_sixty_defaults = \<lparr>bestTime = None, lastTime = None, phase = idle, startTime = None\<rparr>"

definition zero_sixty_update :: "zero_sixty_state \<Rightarrow> jsval \<Rightarrow> jsnum \<Rightarrow> zero_sixty_state" where
  "zero_sixty_update s speed timestamp =
     (if \<not> Number_isFinite speed \<or> \<not> Number_isFinite (Some timestamp) then s
      else case (speed, timestamp) of
        (Some (Num sp), Num ts) \<Rightarrow>
          (case phase s of
             idle \<Rightarrow> if sp \<le> 0.5 then s\<lparr>phase := armed\<rparr> else s
           | armed \<Rightarrow> if 0.5 < sp then s\<lparr>phase := running, startTime := Some ts\<rparr> else s
           | running \<Rightarrow>
               if ZERO_TO_SIXTY_TARGET_MS \<le> sp
               then (let elapsed = ts - (case startTime s of None \<Rightarrow> 0 | Some t \<Rightarrow> t)
                     in if 0 < elapsed
                        then s\<lparr>lastTime := Some elapsed,
                               bestTime := improved_best (bestTime s) elapsed,
                               phase := cooldown\<rparr>
                        else s\<lparr>phase := idle\<rparr>)
               else if sp \<le> 0.5 then s\<lparr>phase := armed\<rparr> else s
           | cooldown \<Rightarrow> if sp \<le> 0.5 then s\<lparr>phase := armed\<rparr> else s)
      | _ \<Rightarrow> s)"

definition zero_sixty_get :: "zero_sixty_state \<Rightarrow> real option \<times> real option" where
  "zero_sixty_get s = (lastTime s, bestTime s)"

definition zero_sixty_reset :: "zero_sixty_state \<Rightarrow> zero_sixty_state" where
  "zero_sixty_reset s = zero_sixty_defaults"

section \<open>One position fix\<close>

text \<open>
  \<^verbatim>\<open>handlePosition\<close> without its rendering: the module variables \<^verbatim>\<open>lastPosition\<close> and the
  five stores, updated in the order of the source.
\<close>

record position =
  coords_latitude :: jsnum
  coords_longitude :: jsnum
  coords_speed :: jsval
  position_timestamp :: jsnum

record engine =
  lastPosition :: "snapshot option"
  distanceStore :: distance_state
  speedStatsStore :: speed_stats_state
  accelerationStore :: accel_state
  quarterMileTracker :: quarter_state
  zeroSixtyTracker :: zero_sixty_state

definition engine_defaults :: engine where
  "engine_defaults =
     \<lparr>lastPosition = None, distanceStore = distance_defaults,
      speedStatsStore = speed_stats_defaults, accelerationStore = accel_defaults,
      quarterMileTracker = quarter_defaults, zeroSixtyTracker = zero_sixty_defaults\<rparr>"

definition handlePosition :: "engine \<Rightarrow> position \<Rightarrow> engine" where
  "handlePosition e p =
     (let timestampSeconds = js_div (position_timestamp p) (Num 1000);
          locationSnapshot =
            \<lparr>lat = coords_latitude p, lon = coords_longitude p, time = timestampSeconds\<rparr>;
          distanceDelta = computeTravelDelta (lastPosition e) locationSnapshot;
          distance = distance_update (distanceStore e) distanceDelta;
          totalDistance = distance_get distance;
          speedValue = resolveSpeed (lastPosition e) (coords_speed p) distanceDelta locationSnapshot
      in \<lparr>lastPosition = Some locationSnapshot,
          distanceStore = distance,
          speedStatsStore = speed_stats_update (speedStatsStore e) speedValue,
          accelerationStore = accel_update (accelerationStore e) speedValue timestampSeconds,
          quarterMileTracker =
            quarter_update (quarterMileTracker e) totalDistance speedValue timestampSeconds,
          zeroSixtyTracker = zero_sixty_update (zeroSixtyTracker e) speedValue timestampSeconds\<rparr>)"

section \<open>Sequences of samples\<close>

text \<open>
  A store fed a list of samples, one \<^verbatim>\<open>update\<close> call each, in order; and the phases the
  zero-to-sixty tracker is in before the first sample and after each one.
\<close>

definition speed_stats_feed :: "speed_stats_state \<Rightarrow> jsval list \<Rightarrow> speed_stats_state" where
  "speed_stats_feed = foldl speed_stats_update"

definition accel_feed :: "accel_state \<Rightarrow> (jsval \<times> jsnum) list \<Rightarrow> accel_state" where
  "accel_feed = foldl (\<lambda>s (speed, timestamp). accel_update s speed timestamp)"

definition zero_sixty_feed ::
  "zero_sixty_state \<Rightarrow> (jsval \<times> jsnum) list \<Rightarrow> zero_sixty_state" where
  "zero_sixty_feed = foldl (\<lambda>s (speed, timestamp). zero_sixty_update s speed timestamp)"

fun zero_sixty_phases ::
  "zero_sixty_state \<Rightarrow> (jsval \<times> jsnum) list \<Rightarrow> zero_sixty_phase list" where
  "zero_sixty_phases s [] = [phase s]"
| "zero_sixty_phases s ((speed, timestamp) # samples) =
     phase s # zero_sixty_phases (zero_sixty_update s speed timestamp) samples"

section \<open>Orders and invariants used by the properties\<close>

text \<open>A nullable peak compared with a later one: null is below every value.\<close>

fun peak_le :: "real option \<Rightarrow> real option \<Rightarrow> bool" where
  "peak_le None q = True"
| "peak_le (Some a) None = False"
| "peak_le (Some a) (Some b) = (a \<le> b)"

text \<open>The finite speeds of a list of samples, in order.\<close>

fun finite_speeds :: "jsval list \<Rightarrow> real list" where
  "finite_speeds [] = []"
| "finite_speeds (Some (Num v) # vs) = v # finite_speeds vs"
| "finite_speeds (other # vs) = finite_speeds vs"

text \<open>
  The invariant of the speed statistics: the count is 0 exactly when there is no minimum
  and exactly when there is no maximum, and a minimum is never above the maximum.
\<close>

definition speed_stats_inv :: "speed_stats_state \<Rightarrow> bool" where
  "speed_stats_inv s =
     ((count s = 0) = (min_speed s = None) \<and> (count s = 0) = (max_speed s = None)
      \<and> (case (min_speed s, max_speed s) of (Some lo, Some hi) \<Rightarrow> lo \<le> hi | _ \<Rightarrow> True))"

section \<open>Distance is monotone\<close>

lemma distance_update_Num:
  "distance_update s (Num x) = (if 0 < x then s\<lparr>total_meters := total_meters s + x\<rparr> else s)"
  by (simp add: distance_update_def js_gt_def)

lemma distance_update_nonfinite:
  "distance_update s PosInf = s" "distance_update s NegInf = s" "distance_update s NaN = s"
  by (simp_all add: distance_update_def)

lemma distance_update_mono: "total_meters s \<le> total_meters (distance_update s d)"
  by (cases d) (simp_all add: distance_update_Num distance_update_nonfinite)

lemma distance_foldl_mono: "total_meters s \<le> total_meters (foldl distance_update s ds)"
proof (induction ds arbitrary: s)
  case Nil
  show ?case by simp
next
  case (Cons d ds)
  have "total_meters s \<le> total_meters (distance_update s d)"
    by (rule distance_update_mono)
  also have "\<dots> \<le> total_meters (foldl distance_update (distance_update s d) ds)"
    by (rule Cons.IH)
  finally show ?case by simp
qed

lemma handlePosition_distance:
  "distanceStore (handlePosition e p) =
     distance_update (distanceStore e)
       (computeTravelDelta (lastPosition e)
          \<lparr>lat = coords_latitude p, lon = coords_longitude p,
           time = js_div (position_timestamp p) (Num 1000)\<rparr>)"
  by (simp add: handlePosition_def Let_def)

lemma handlePosition_lastPosition:
  "lastPosition (handlePosition e p) =
     Some \<lparr>lat = coords_latitude p, lon = coords_longitude p,
           time = js_div (position_timestamp p) (Num 1000)\<rparr>"
  by (simp add: handlePosition_def Let_def)

lemma handlePosition_foldl_mono:
  "total_meters (distanceStore e) \<le> total_meters (distanceStore (foldl handlePosition e ps))"
proof (induction ps arbitrary: e)
  case Nil
  show ?case by simp
next
  case (Cons p ps)
  have "total_meters (distanceStore e) \<le> total_meters (distanceStore (handlePosition e p))"
    by (simp add: handlePosition_distance distance_update_mono)
  also have "\<dots> \<le> total_meters (distanceStore (foldl handlePosition (handlePosition e p) ps))"
    by (rule Cons.IH)
  finally show ?case by simp
qed

text \<open>Between two snapshots of the same coordinates the travel delta is never positive.\<close>

lemma computeTravelDelta_same_point:
  "\<not> js_gt (computeTravelDelta (Some \<lparr>lat = la, lon = lo, time = t\<rparr>)
            \<lparr>lat = la, lon = lo, time = t'\<rparr>) (Num 0)"
  by (cases la; cases lo)
    (simp_all add: computeTravelDelta_def Let_def toRadians_def js_sub_def js_square_def
      js_gt_def EARTH_RADIUS_M_def signed_inf_def)

lemma two_identical_points:
  "total_meters (distanceStore (handlePosition (handlePosition engine_defaults p)
     (p\<lparr>position_timestamp := t, coords_speed := v\<rparr>))) = 0"
proof -
  have first: "distanceStore (handlePosition engine_defaults p) = distance_defaults"
    by (simp add: handlePosition_distance engine_defaults_def computeTravelDelta_def
        distance_update_Num)
  show ?thesis
    using computeTravelDelta_same_point
      [of "coords_latitude p" "coords_longitude p" "js_div (position_timestamp p) (Num 1000)"
        "js_div t (Num 1000)"]
    by (simp add: handlePosition_distance [of "handlePosition engine_defaults p"]
        handlePosition_lastPosition first distance_update_def distance_defaults_def)
qed

text \<open>
  Claim C1. The distance store's \<^verbatim>\<open>update(delta)\<close> adds a finite delta greater than 0 to
  the total and leaves the state as it is for every other delta (a finite one that is not
  positive, an infinity, NaN). So the total never decreases, over any sequence of
  updates and over any sequence of position fixes, whatever their coordinates and their
  order. From the default stores, a fix followed by a fix at the same coordinates leaves
  the total at 0.
\<close>

theorem distance_total_monotone:
  "distance_update s (Num x) = (if 0 < x then s\<lparr>total_meters := total_meters s + x\<rparr> else s)
   \<and> distance_update s PosInf = s \<and> distance_update s NegInf = s \<and> distance_update s NaN = s
   \<and> total_meters s \<le> total_meters (foldl distance_update s ds)
   \<and> total_meters (distanceStore e) \<le> total_meters (distanceStore (foldl handlePosition e ps))
   \<and> total_meters (distanceStore (handlePosition (handlePosition engine_defaults p)
         (p\<lparr>position_timestamp := t, coords_speed := v\<rparr>))) = 0"
  using distance_update_Num [of s x] distance_update_nonfinite [of s]
    distance_foldl_mono [of s ds] handlePosition_foldl_mono [of e ps]
    two_identical_points [where p = p and t = t and v = v]
  by simp

text \<open>
  From the defaults, the deltas 3, NaN, -1, Infinity, 2 leave a total of 5: only the two
  finite positive deltas are added.
\<close>

theorem distance_total_monotone_witness:
  "total_meters (foldl distance_update distance_defaults [Num 3, NaN, Num (- 1), PosInf, Num 2]) = 5
   \<and> distance_update distance_defaults (Num 3) = \<lparr>total_meters = 3\<rparr>
   \<and> distance_update distance_defaults (Num (- 1)) = distance_defaults"
  using distance_total_monotone [where s = distance_defaults and x = 3
      and ds = "[Num 3, NaN, Num (- 1), PosInf, Num 2]"]
    distance_total_monotone [where s = distance_defaults and x = "- 1" and ds = "[]"]
  by (simp add: distance_update_def js_gt_def distance_defaults_def)

section \<open>Speed resolution\<close>

lemma resolveSpeed_finite_raw: "resolveSpeed lastPos (Some (Num r)) delta snap = Some (Num r)"
  by (simp add: resolveSpeed_def)

lemma resolveSpeed_no_previous:
  "\<not> Number_isFinite raw \<Longrightarrow> resolveSpeed None raw delta snap = None"
  by (simp add: resolveSpeed_def)

lemma resolveSpeed_fallback:
  "\<not> Number_isFinite raw \<Longrightarrow>
   resolveSpeed (Some prev) raw delta snap =
     (case (js_sub (time snap) (time prev), delta) of
        (Num dt, Num d) \<Rightarrow> if 0 < dt then Some (Num (d / dt)) else None
      | (PosInf, Num d) \<Rightarrow> Some (Num 0)
      | _ \<Rightarrow> None)"
  by (cases "js_sub (time snap) (time prev)"; cases delta)
    (auto simp add: resolveSpeed_def Let_def)

text \<open>
  Claim C2, as stated, fails where \<open>dt\<close> is positive infinity: the guard
  \<^verbatim>\<open>!dt || dt <= 0\<close> lets it through, and a finite delta divided by it is 0, not null.
\<close>

theorem resolveSpeed_infinite_dt_counterexample:
  "\<not> Number_isFinite (Some (js_sub PosInf (Num 0)))
   \<and> resolveSpeed (Some \<lparr>lat = Num 0, lon = Num 0, time = Num 0\<rparr>) None (Num 100)
       \<lparr>lat = Num 0, lon = Num 0, time = PosInf\<rparr> = Some (Num 0)"
  by (simp add: resolveSpeed_def js_sub_def)

text \<open>
  Claim C2, amended. A finite \<^verbatim>\<open>rawSpeed\<close> is returned as it is. Otherwise, without a
  previous fix the result is null; with one, and \<open>dt\<close> the difference of the two times:
  a finite \<open>dt\<close> greater than 0 and a finite delta give \<open>delta / dt\<close>; \<open>dt\<close> positive
  infinity and a finite delta give 0; every other case (\<open>dt\<close> zero, negative, negative
  infinity or NaN, or a delta that is not finite) gives null. A fix at the time of the
  previous one has \<open>dt = 0\<close> and gives null.
\<close>

theorem resolveSpeed_preference:
  "resolveSpeed lastPos (Some (Num r)) delta snap = Some (Num r)
   \<and> (\<not> Number_isFinite raw \<longrightarrow> resolveSpeed None raw delta snap = None)
   \<and> (\<not> Number_isFinite raw \<longrightarrow>
        resolveSpeed (Some prev) raw delta snap =
          (case (js_sub (time snap) (time prev), delta) of
             (Num dt, Num d) \<Rightarrow> if 0 < dt then Some (Num (d / dt)) else None
           | (PosInf, Num d) \<Rightarrow> Some (Num 0)
           | _ \<Rightarrow> None))"
  using resolveSpeed_finite_raw resolveSpeed_no_previous resolveSpeed_fallback by blast

theorem resolveSpeed_preference_witness:
  "resolveSpeed (Some \<lparr>lat = Num 0, lon = Num 0, time = Num 0\<rparr>) (Some (Num 3)) (Num 10)
      \<lparr>lat = Num 0, lon = Num 0, time = Num 2\<rparr> = Some (Num 3)
   \<and> resolveSpeed None None (Num 10) \<lparr>lat = Num 0, lon = Num 0, time = Num 2\<rparr> = None
   \<and> resolveSpeed (Some \<lparr>lat = Num 0, lon = Num 0, time = Num 0\<rparr>) None (Num 10)
      \<lparr>lat = Num 0, lon = Num 0, time = Num 2\<rparr> = Some (Num 5)
   \<and> resolveSpeed (Some \<lparr>lat = Num 0, lon = Num 0, time = Num 2\<rparr>) (Some NaN) (Num 10)
      \<lparr>lat = Num 0, lon = Num 0, time = Num 2\<rparr> = None"
  using
    resolveSpeed_preference [where lastPos = "Some \<lparr>lat = Num 0, lon = Num 0, time = Num 0\<rparr>"
      and r = 3 and delta = "Num 10" and snap = "\<lparr>lat = Num 0, lon = Num 0, time = Num 2\<rparr>"
      and raw = None and prev = "\<lparr>lat = Num 0, lon = Num 0, time = Num 0\<rparr>"]
    resolveSpeed_preference [where lastPos = "Some \<lparr>lat = Num 0, lon = Num 0, time = Num 0\<rparr>"
      and r = 3 and delta = "Num 10" and snap = "\<lparr>lat = Num 0, lon = Num 0, time = Num 2\<rparr>"
      and raw = "Some NaN" and prev = "\<lparr>lat = Num 0, lon = Num 0, time = Num 2\<rparr>"]
  by (simp add: js_sub_def)

section \<open>Quarter-mile completion\<close>

lemma quarter_update_complete:
  assumes "runStart s = Some start"
    and "js_ge (js_sub totalDistance (run_distance start)) (Num QUARTER_MILE_M)"
  shows "quarter_update s totalDistance speed timestamp =
     (case js_sub timestamp (run_time start) of
        Num e \<Rightarrow>
          if 0 < e
          then s\<lparr>lastTime := Some e,
                 bestTime := (case bestTime s of None \<Rightarrow> Some e
                              | Some b \<Rightarrow> if e < b then Some e else Some b),
                 status := Completed, runStart := None\<rparr>
          else s\<lparr>status := Standby, runStart := None\<rparr>
      | _ \<Rightarrow> s\<lparr>status := Standby, runStart := None\<rparr>)"
  using assms
  by (cases "js_sub timestamp (run_time start)")
    (simp_all add: quarter_update_def Let_def js_gt_def improved_best_def)

lemma quarter_update_arm:
  "runStart s = None \<Longrightarrow> 1 \<le> v \<Longrightarrow>
   quarter_update s totalDistance (Some (Num v)) timestamp =
     s\<lparr>runStart := Some \<lparr>run_distance = totalDistance, run_time = timestamp\<rparr>, status := Running\<rparr>"
  by (simp add: quarter_update_def shouldArmRun_def js_ge_def)

text \<open>
  Claim C3. With a run armed and the distance covered since arming at least 402.336 m,
  \<^verbatim>\<open>update\<close> looks at \<open>elapsed = timestamp - runStart.time\<close>. A finite elapsed time
  greater than 0 becomes \<open>lastTime\<close>, and becomes \<open>bestTime\<close> exactly when there is no
  best time yet or it is strictly smaller than the best one (a tie keeps the best one);
  the status is Completed and the run is cleared. Any other elapsed time discards the
  run: the status is Standby, the run is cleared, and both times stay as they are. In
  both cases a best time that exists never increases.
\<close>

theorem quarter_mile_completion:
  assumes "runStart s = Some start"
    and "js_ge (js_sub totalDistance (run_distance start)) (Num QUARTER_MILE_M)"
  shows "quarter_update s totalDistance speed timestamp =
     (case js_sub timestamp (run_time start) of
        Num e \<Rightarrow>
          if 0 < e
          then s\<lparr>lastTime := Some e,
                 bestTime := (case bestTime s of None \<Rightarrow> Some e
                              | Some b \<Rightarrow> if e < b then Some e else Some b),
                 status := Completed, runStart := None\<rparr>
          else s\<lparr>status := Standby, runStart := None\<rparr>
      | _ \<Rightarrow> s\<lparr>status := Standby, runStart := None\<rparr>)
    \<and> (\<forall>b. bestTime s = Some b \<longrightarrow>
          (\<exists>b'. bestTime (quarter_update s totalDistance speed timestamp) = Some b' \<and> b' \<le> b))"
proof -
  let ?s' = "quarter_update s totalDistance speed timestamp"
  have eq: "?s' =
     (case js_sub timestamp (run_time start) of
        Num e \<Rightarrow>
          if 0 < e
          then s\<lparr>lastTime := Some e,
                 bestTime := (case bestTime s of None \<Rightarrow> Some e
                              | Some b \<Rightarrow> if e < b then Some e else Some b),
                 status := Completed, runStart := None\<rparr>
          else s\<lparr>status := Standby, runStart := None\<rparr>
      | _ \<Rightarrow> s\<lparr>status := Standby, runStart := None\<rparr>)"
    using assms by (rule quarter_update_complete)
  have "\<exists>b'. bestTime ?s' = Some b' \<and> b' \<le> b" if "bestTime s = Some b" for b
    unfolding eq using that by (cases "js_sub timestamp (run_time start)") auto
  with eq show ?thesis by blast
qed

text \<open>
  A run armed at distance 0 and time 0 and completed at time 20, then a second run armed
  at time 21 and completed at time 46: the slower 25 s leave the best time at 20 s.
\<close>

theorem quarter_mile_completion_witness:
  "(let s1 = quarter_update quarter_defaults (Num 0) (Some (Num 5)) (Num 0);
        s2 = quarter_update s1 (Num 402.336) (Some (Num 20)) (Num 20);
        s3 = quarter_update s2 (Num 402.336) (Some (Num 20)) (Num 21);
        s4 = quarter_update s3 (Num 900) (Some (Num 20)) (Num 46)
    in runStart s1 = Some \<lparr>run_distance = Num 0, run_time = Num 0\<rparr>
       \<and> s2 = \<lparr>bestTime = Some 20, lastTime = Some 20, runStart = None, status = Completed\<rparr>
       \<and> runStart s3 = Some \<lparr>run_distance = Num 402.336, run_time = Num 21\<rparr>
       \<and> s4 = \<lparr>bestTime = Some 20, lastTime = Some 25, runStart = None, status = Completed\<rparr>)"
proof -
  let ?a1 = "\<lparr>run_distance = Num 0, run_time = Num 0\<rparr>"
  let ?a3 = "\<lparr>run_distance = Num 402.336, run_time = Num 21\<rparr>"
  let ?s1 = "\<lparr>bestTime = None, lastTime = None, runStart = Some ?a1, status = Running\<rparr>"
  let ?s2 = "\<lparr>bestTime = Some 20, lastTime = Some 20, runStart = None, status = Completed\<rparr>"
  let ?s3 = "\<lparr>bestTime = Some 20, lastTime = Some 20, runStart = Some ?a3, status = Running\<rparr>"
  let ?s4 = "\<lparr>bestTime = Some 20, lastTime = Some 25, runStart = None, status = Completed\<rparr>"
  have s1: "quarter_update quarter_defaults (Num 0) (Some (Num 5)) (Num 0) = ?s1"
    by (simp add: quarter_update_arm quarter_defaults_def)
  have s2: "quarter_update ?s1 (Num 402.336) (Some (Num 20)) (Num 20) = ?s2"
    using quarter_mile_completion [of ?s1 ?a1 "Num 402.336" "Some (Num 20)" "Num 20"]
    by (simp add: js_ge_def js_sub_def QUARTER_MILE_M_def)
  have s3: "quarter_update ?s2 (Num 402.336) (Some (Num 20)) (Num 21) = ?s3"
    by (simp add: quarter_update_arm)
  have s4: "quarter_update ?s3 (Num 900) (Some (Num 20)) (Num 46) = ?s4"
    using quarter_mile_completion [of ?s3 ?a3 "Num 900" "Some (Num 20)" "Num 46"]
    by (simp add: js_ge_def js_sub_def QUARTER_MILE_M_def)
  show ?thesis
    unfolding Let_def s1 s2 s3 s4 by simp
qed

section \<open>Zero-to-sixty run\<close>

text \<open>
  Claim C4, as stated, fails: the fourth sample, 30 m/s at time 3, is already at or above
  26.8224 m/s, so the run ends there and the time recorded is 1 s, not 2 s.
\<close>

theorem zero_sixty_sequence_counterexample:
  "lastTime (zero_sixty_feed zero_sixty_defaults
     [(Some (Num 0), Num 0), (Some (Num 0), Num 1), (Some (Num 10), Num 2),
      (Some (Num 30), Num 3), (Some (Num 27), Num 4)]) \<noteq> Some 2
   \<and> zero_sixty_phases zero_sixty_defaults
     [(Some (Num 0), Num 0), (Some (Num 0), Num 1), (Some (Num 10), Num 2),
      (Some (Num 30), Num 3)] \<noteq> [idle, armed, running, running, cooldown]
   \<and> zero_sixty_phases zero_sixty_defaults
     [(Some (Num 0), Num 0), (Some (Num 0), Num 1), (Some (Num 10), Num 2),
      (Some (Num 30), Num 3), (Some (Num 27), Num 4)]
       \<noteq> [idle, armed, running, running, cooldown, cooldown]"
  by (simp add: zero_sixty_feed_def zero_sixty_update_def zero_sixty_defaults_def
      ZERO_TO_SIXTY_TARGET_MS_def improved_best_def)

text \<open>
  Claim C4, amended. From the idle phase with the default times, the speeds 0, 0, 10, 30,
  27 m/s at the times 0, 1, 2, 3, 4 take the phase through idle, armed, armed, running,
  cooldown, cooldown: the run starts at time 2, ends at time 3, and the time recorded
  as last and as best is 3 - 2 = 1 second.
\<close>

theorem zero_sixty_sequence:
  "zero_sixty_phases zero_sixty_defaults
     [(Some (Num 0), Num 0), (Some (Num 0), Num 1), (Some (Num 10), Num 2),
      (Some (Num 30), Num 3), (Some (Num 27), Num 4)]
     = [idle, armed, armed, running, cooldown, cooldown]
   \<and> zero_sixty_feed zero_sixty_defaults
     [(Some (Num 0), Num 0), (Some (Num 0), Num 1), (Some (Num 10), Num 2),
      (Some (Num 30), Num 3), (Some (Num 27), Num 4)]
     = \<lparr>bestTime = Some 1, lastTime = Some 1, phase = cooldown, startTime = Some 2\<rparr>"
  by (simp add: zero_sixty_feed_def zero_sixty_update_def zero_sixty_defaults_def
      ZERO_TO_SIXTY_TARGET_MS_def improved_best_def)

theorem zero_sixty_sequence_witness:
  "lastTime (zero_sixty_feed zero_sixty_defaults
     [(Some (Num 0), Num 0), (Some (Num 0), Num 1), (Some (Num 10), Num 2),
      (Some (Num 30), Num 3), (Some (Num 27), Num 4)]) = Some (3 - 2)"
  using zero_sixty_sequence by simp

section \<open>Acceleration\<close>

text \<open>
  Claim C5 fails on the code. \<^verbatim>\<open>update\<close> sets \<^verbatim>\<open>current\<close> to null when the sample is not
  finite or there is no baseline, but with a finite sample, a baseline and \<open>dt \<le> 0\<close>
  it leaves \<^verbatim>\<open>current\<close> as the previous call set it. After the samples (0 m/s, 0 s) and
  (10 m/s, 2 s), a third sample at the same time 2 s (\<open>dt = 0\<close>) or at the earlier time
  1 s (\<open>dt < 0\<close>) still reports \<open>current = 5\<close>; so do three position fixes that carry
  these speeds and times.
\<close>

theorem accel_current_stale_on_nonpositive_dt:
  "view_current (accel_get (accel_feed accel_defaults
      [(Some (Num 0), Num 0), (Some (Num 10), Num 2), (Some (Num 10), Num 2)])) = Some (Num 5)
   \<and> view_current (accel_get (accel_feed accel_defaults
      [(Some (Num 0), Num 0), (Some (Num 10), Num 2), (Some (Num 10), Num 1)])) = Some (Num 5)
   \<and> view_current (accel_get (accelerationStore (foldl handlePosition engine_defaults
      [\<lparr>coords_latitude = Num 0, coords_longitude = Num 0, coords_speed = Some (Num 0),
         position_timestamp = Num 0\<rparr>,
       \<lparr>coords_latitude = Num 0, coords_longitude = Num 0, coords_speed = Some (Num 10),
         position_timestamp = Num 2000\<rparr>,
       \<lparr>coords_latitude = Num 0, coords_longitude = Num 0, coords_speed = Some (Num 10),
         position_timestamp = Num 2000\<rparr>]))) = Some (Num 5)"
  by (simp add: accel_feed_def accel_update_def accel_measure_def accel_peaks_def accel_get_def
      accel_defaults_def js_sub_def js_gt_def Let_def handlePosition_def engine_defaults_def
      resolveSpeed_def)

lemma accel_peaks_current: "current (accel_peaks s c) = current s"
  by (simp add: accel_peaks_def Let_def)

lemma accel_peaks_accel:
  "peakAccel (accel_peaks s c) =
     (if 0 < c then Some (case peakAccel s of None \<Rightarrow> c | Some p \<Rightarrow> max p c) else peakAccel s)"
  by (simp add: accel_peaks_def Let_def)

lemma accel_peaks_decel:
  "peakDecel (accel_peaks s c) =
     (if c < 0 then Some (case peakDecel s of None \<Rightarrow> \<bar>c\<bar> | Some p \<Rightarrow> max p \<bar>c\<bar>) else peakDecel s)"
  by (simp add: accel_peaks_def Let_def split: option.splits)

lemma accel_measure_cases:
  "accel_measure s speed timestamp = s\<lparr>current := None\<rparr>
   \<or> accel_measure s speed timestamp = s
   \<or> (\<exists>c. accel_measure s speed timestamp = accel_peaks (s\<lparr>current := Some (Num c)\<rparr>) c)
   \<or> (\<exists>c. accel_measure s speed timestamp = s\<lparr>current := Some c\<rparr>)"
  unfolding accel_measure_def Let_def
  by (auto split: option.splits jsnum.splits prod.splits)

lemma peak_le_refl: "peak_le p p"
  by (cases p) simp_all

lemma peak_le_trans: "peak_le p q \<Longrightarrow> peak_le q r \<Longrightarrow> peak_le p r"
  by (cases p; cases q; cases r) simp_all

lemma accel_update_peaks:
  "peakAccel (accel_update s speed timestamp) = peakAccel (accel_measure s speed timestamp)"
  "peakDecel (accel_update s speed timestamp) = peakDecel (accel_measure s speed timestamp)"
  "current (accel_update s speed timestamp) = current (accel_measure s speed timestamp)"
  by (simp_all add: accel_update_def Let_def split: option.splits jsnum.splits)

lemma accel_update_mono:
  "peak_le (peakAccel s) (peakAccel (accel_update s speed timestamp))"
  "peak_le (peakDecel s) (peakDecel (accel_update s speed timestamp))"
  using accel_measure_cases [of s speed timestamp]
  by (auto simp add: accel_update_peaks peak_le_refl accel_peaks_accel accel_peaks_decel
      split: option.splits)

lemma accel_update_peakAccel_change:
  "peakAccel (accel_update s speed timestamp) \<noteq> peakAccel s \<Longrightarrow>
   \<exists>c. 0 < c \<and> current (accel_update s speed timestamp) = Some (Num c)
     \<and> peakAccel (accel_update s speed timestamp) = Some c
     \<and> (case peakAccel s of None \<Rightarrow> True | Some p \<Rightarrow> p < c)"
  using accel_measure_cases [of s speed timestamp]
  by (auto simp add: accel_update_peaks accel_peaks_accel accel_peaks_current
      split: option.splits if_splits)

lemma accel_update_peakDecel_change:
  "peakDecel (accel_update s speed timestamp) \<noteq> peakDecel s \<Longrightarrow>
   \<exists>c. c < 0 \<and> current (accel_update s speed timestamp) = Some (Num c)
     \<and> peakDecel (accel_update s speed timestamp) = Some \<bar>c\<bar>
     \<and> (case peakDecel s of None \<Rightarrow> True | Some p \<Rightarrow> p < \<bar>c\<bar>)"
  using accel_measure_cases [of s speed timestamp]
  by (auto simp add: accel_update_peaks accel_peaks_decel accel_peaks_current
      split: option.splits if_splits)

lemma accel_feed_mono:
  "peak_le (peakAccel s) (peakAccel (accel_feed s xs))
   \<and> peak_le (peakDecel s) (peakDecel (accel_feed s xs))"
proof (induction xs arbitrary: s)
  case Nil
  show ?case by (simp add: accel_feed_def peak_le_refl)
next
  case (Cons x xs)
  obtain v t where x: "x = (v, t)" by (cases x)
  have step: "accel_feed s (x # xs) = accel_feed (accel_update s v t) xs"
    by (simp add: accel_feed_def x)
  show ?case
    unfolding step
    using Cons.IH [of "accel_update s v t"] accel_update_mono [of s v t] peak_le_trans
    by blast
qed

text \<open>
  Claim C6. The two peaks are high-water marks. Over one \<^verbatim>\<open>update\<close> and over any list
  of updates a peak never decreases, null counting as below every value, so a peak that
  has a value keeps one. When an update changes \<open>peakAccel\<close>, the current acceleration
  is positive, it is the new peak, and the old peak was null or strictly smaller; when
  it changes \<open>peakDecel\<close>, the current acceleration is negative, its magnitude is the
  new peak, and the old peak was null or strictly smaller. \<^verbatim>\<open>reset\<close> sets both to null.
\<close>

theorem peaks_high_water_marks:
  "peak_le (peakAccel s) (peakAccel (accel_update s speed timestamp))
   \<and> peak_le (peakDecel s) (peakDecel (accel_update s speed timestamp))
   \<and> peak_le (peakAccel s) (peakAccel (accel_feed s samples))
   \<and> peak_le (peakDecel s) (peakDecel (accel_feed s samples))
   \<and> (peakAccel s \<noteq> None \<longrightarrow> peakAccel (accel_feed s samples) \<noteq> None)
   \<and> (peakDecel s \<noteq> None \<longrightarrow> peakDecel (accel_feed s samples) \<noteq> None)
   \<and> (peakAccel (accel_update s speed timestamp) \<noteq> peakAccel s \<longrightarrow>
        (\<exists>c. 0 < c \<and> current (accel_update s speed timestamp) = Some (Num c)
           \<and> peakAccel (accel_update s speed timestamp) = Some c
           \<and> (case peakAccel s of None \<Rightarrow> True | Some p \<Rightarrow> p < c)))
   \<and> (peakDecel (accel_update s speed timestamp) \<noteq> peakDecel s \<longrightarrow>
        (\<exists>c. c < 0 \<and> current (accel_update s speed timestamp) = Some (Num c)
           \<and> peakDecel (accel_update s speed timestamp) = Some \<bar>c\<bar>
           \<and> (case peakDecel s of None \<Rightarrow> True | Some p \<Rightarrow> p < \<bar>c\<bar>)))
   \<and> peakAccel (accel_reset s) = None \<and> peakDecel (accel_reset s) = None"
proof -
  have keep: "q \<noteq> None" if "peak_le p q" and "p \<noteq> None" for p q :: "real option"
    using that by (cases p; cases q) simp_all
  have feed:
    "peak_le (peakAccel s) (peakAccel (accel_feed s samples))"
    "peak_le (peakDecel s) (peakDecel (accel_feed s samples))"
    using accel_feed_mono [of s samples] by simp_all
  have reset: "peakAccel (accel_reset s) = None" "peakDecel (accel_reset s) = None"
    by (simp_all add: accel_reset_def accel_defaults_def)
  show ?thesis
    using accel_update_mono [of s speed timestamp] feed keep [OF feed(1)] keep [OF feed(2)]
      accel_update_peakAccel_change [of s speed timestamp]
      accel_update_peakDecel_change [of s speed timestamp] reset
    by blast
qed

text \<open>
  From the defaults, the samples (0 m/s, 0 s) and (10 m/s, 2 s) give \<open>current = 5\<close>,
  \<open>peakAccel = 5\<close> and no \<open>peakDecel\<close>; a third sample (4 m/s, 4 s) gives
  \<open>current = -3\<close>, keeps \<open>peakAccel = 5\<close> and sets \<open>peakDecel = 3\<close>. From there a
  sample (20 m/s, 5 s) raises \<open>peakAccel\<close> to 16 and keeps \<open>peakDecel\<close>, and a sample
  (0 m/s, 5 s) instead raises \<open>peakDecel\<close> to 4 and keeps \<open>peakAccel\<close>.
\<close>

theorem peaks_high_water_marks_witness:
  "accel_feed accel_defaults [(Some (Num 0), Num 0), (Some (Num 10), Num 2)]
     = \<lparr>lastSpeed = Some 10, lastSampleTime = Some 2, peakAccel = Some 5, peakDecel = None,
        current = Some (Num 5)\<rparr>
   \<and> accel_update
       \<lparr>lastSpeed = Some 10, lastSampleTime = Some 2, peakAccel = Some 5, peakDecel = None,
        current = Some (Num 5)\<rparr> (Some (Num 4)) (Num 4)
     = \<lparr>lastSpeed = Some 4, lastSampleTime = Some 4, peakAccel = Some 5, peakDecel = Some 3,
        current = Some (Num (- 3))\<rparr>
   \<and> accel_update
       \<lparr>lastSpeed = Some 4, lastSampleTime = Some 4, peakAccel = Some 5, peakDecel = Some 3,
        current = Some (Num (- 3))\<rparr> (Some (Num 20)) (Num 5)
     = \<lparr>lastSpeed = Some 20, lastSampleTime = Some 5, peakAccel = Some 16, peakDecel = Some 3,
        current = Some (Num 16)\<rparr>
   \<and> accel_update
       \<lparr>lastSpeed = Some 4, lastSampleTime = Some 4, peakAccel = Some 5, peakDecel = Some 3,
        current = Some (Num (- 3))\<rparr> (Some (Num 0)) (Num 5)
     = \<lparr>lastSpeed = Some 0, lastSampleTime = Some 5, peakAccel = Some 5, peakDecel = Some 4,
        current = Some (Num (- 4))\<rparr>
   \<and> peak_le (Some 5) (Some 16) \<and> peak_le (Some 3) (Some 4) \<and> peak_le None (Some 3)"
  using
    peaks_high_water_marks
      [of "\<lparr>lastSpeed = Some 10, lastSampleTime = Some 2, peakAccel = Some 5, peakDecel = None,
            current = Some (Num 5)\<rparr>" "Some (Num 4)" "Num 4" "[]"]
    peaks_high_water_marks
      [of "\<lparr>lastSpeed = Some 4, lastSampleTime = Some 4, peakAccel = Some 5, peakDecel = Some 3,
            current = Some (Num (- 3))\<rparr>" "Some (Num 20)" "Num 5" "[(Some (Num 0), Num 5)]"]
    peaks_high_water_marks
      [of "\<lparr>lastSpeed = Some 4, lastSampleTime = Some 4, peakAccel = Some 5, peakDecel = Some 3,
            current = Some (Num (- 3))\<rparr>" "Some (Num 0)" "Num 5" "[(Some (Num 20), Num 5)]"]
  by (simp add: accel_feed_def accel_update_def accel_measure_def accel_peaks_def
      accel_defaults_def js_sub_def js_gt_def Let_def)

text \<open>
  Claim C8, as stated, fails at a zero reading: two samples of the same speed one second
  apart give \<open>current = 0\<close>, and \<^verbatim>\<open>get\<close> reports 0 as \<^verbatim>\<open>current\<close>, not null, next to
  \<^verbatim>\<open>currentDecel = 0\<close>.
\<close>

theorem accel_view_zero_counterexample:
  "current (accel_feed accel_defaults [(Some (Num 5), Num 0), (Some (Num 5), Num 1)])
     = Some (Num 0)
   \<and> view_current (accel_get
        (accel_feed accel_defaults [(Some (Num 5), Num 0), (Some (Num 5), Num 1)])) \<noteq> None"
  by (simp add: accel_feed_def accel_update_def accel_measure_def accel_peaks_def accel_get_def
      accel_defaults_def js_sub_def js_gt_def Let_def)

text \<open>
  Claim C8, amended. \<^verbatim>\<open>currentDecel\<close> is the magnitude of a finite negative \<^verbatim>\<open>current\<close>,
  0 when \<^verbatim>\<open>current\<close> is 0, and null otherwise (a positive, infinite, NaN or null
  \<^verbatim>\<open>current\<close>). The \<^verbatim>\<open>current\<close> of the view is \<^verbatim>\<open>current\<close> itself whenever it is finite,
  0 and negative values included, and null otherwise: at a zero reading both are 0.
\<close>

theorem accel_get_views:
  "currentDecel (accel_get s) =
     (case current s of
        Some (Num c) \<Rightarrow> if c < 0 then Some (Num \<bar>c\<bar>) else if c = 0 then Some (Num 0) else None
      | _ \<Rightarrow> None)
   \<and> view_current (accel_get s) = (case current s of Some (Num c) \<Rightarrow> Some (Num c) | _ \<Rightarrow> None)"
  by (simp add: accel_get_def Let_def split: option.splits jsnum.splits)

theorem accel_get_views_witness:
  "accel_get (accel_defaults\<lparr>current := Some (Num (- 3))\<rparr>)
     = \<lparr>view_current = Some (Num (- 3)), currentDecel = Some (Num 3),
        view_peakAccel = None, view_peakDecel = None\<rparr>
   \<and> accel_get (accel_defaults\<lparr>current := Some (Num 0)\<rparr>)
     = \<lparr>view_current = Some (Num 0), currentDecel = Some (Num 0),
        view_peakAccel = None, view_peakDecel = None\<rparr>
   \<and> accel_get (accel_defaults\<lparr>current := Some (Num 2)\<rparr>)
     = \<lparr>view_current = Some (Num 2), currentDecel = None,
        view_peakAccel = None, view_peakDecel = None\<rparr>
   \<and> accel_get accel_defaults
     = \<lparr>view_current = None, currentDecel = None, view_peakAccel = None, view_peakDecel = None\<rparr>"
  using accel_get_views [of "accel_defaults\<lparr>current := Some (Num (- 3))\<rparr>"]
    accel_get_views [of "accel_defaults\<lparr>current := Some (Num 0)\<rparr>"]
    accel_get_views [of "accel_defaults\<lparr>current := Some (Num 2)\<rparr>"]
    accel_get_views [of accel_defaults]
  by (simp add: accel_get_def accel_defaults_def Let_def)

section \<open>Speed statistics\<close>

lemma speed_stats_update_nonfinite:
  "\<not> Number_isFinite speed \<Longrightarrow> speed_stats_update s speed = s"
  by (simp add: speed_stats_update_def)

lemma speed_stats_update_finite:
  "speed_stats_update s (Some (Num v)) =
     s\<lparr>count := count s + 1, total_speed := total_speed s + v,
       min_speed := Some (case min_speed s of None \<Rightarrow> v | Some m \<Rightarrow> min m v),
       max_speed := Some (case max_speed s of None \<Rightarrow> v | Some m \<Rightarrow> max m v)\<rparr>"
  by (simp add: speed_stats_update_def)

lemma speed_stats_average:
  "average (speed_stats_get s) =
     (if 0 < count s then Some (total_speed s / real (count s)) else None)"
  by (simp add: speed_stats_get_def)

text \<open>
  Claim C7. \<^verbatim>\<open>update(speed)\<close> with a speed that is not finite changes nothing and returns
  the statistics as they were. With a finite speed it adds 1 to the count and the speed
  to the total; the first finite speed becomes the minimum and the maximum, and later
  the minimum (maximum) is replaced when the speed is smaller (greater). The average
  reported is total / count when the count is above 0 and null otherwise. From the
  defaults, the speeds 10, 20, 30 give average 20, minimum 10, maximum 30.
\<close>

theorem speed_stats_update_spec:
  "(\<not> Number_isFinite speed \<longrightarrow>
      speed_stats_update s speed = s
      \<and> speed_stats_get (speed_stats_update s speed) = speed_stats_get s)
   \<and> count (speed_stats_update s (Some (Num v))) = count s + 1
   \<and> total_speed (speed_stats_update s (Some (Num v))) = total_speed s + v
   \<and> min_speed (speed_stats_update s (Some (Num v))) =
       (case min_speed s of None \<Rightarrow> Some v | Some m \<Rightarrow> Some (if v < m then v else m))
   \<and> max_speed (speed_stats_update s (Some (Num v))) =
       (case max_speed s of None \<Rightarrow> Some v | Some m \<Rightarrow> Some (if m < v then v else m))
   \<and> speed_stats_get s =
       \<lparr>view_min = min_speed s, view_max = max_speed s,
        average = (if 0 < count s then Some (total_speed s / real (count s)) else None)\<rparr>
   \<and> speed_stats_get (speed_stats_feed speed_stats_defaults
         [Some (Num 10), Some (Num 20), Some (Num 30)])
       = \<lparr>view_min = Some 10, view_max = Some 30, average = Some 20\<rparr>"
proof -
  have ex: "speed_stats_get (speed_stats_feed speed_stats_defaults
         [Some (Num 10), Some (Num 20), Some (Num 30)])
       = \<lparr>view_min = Some 10, view_max = Some 30, average = Some 20\<rparr>"
    by (simp add: speed_stats_feed_def speed_stats_update_finite speed_stats_defaults_def
        speed_stats_get_def)
  have mn: "min_speed (speed_stats_update s (Some (Num v))) =
       (case min_speed s of None \<Rightarrow> Some v | Some m \<Rightarrow> Some (if v < m then v else m))"
    by (auto simp add: speed_stats_update_finite min_def split: option.splits)
  have mx: "max_speed (speed_stats_update s (Some (Num v))) =
       (case max_speed s of None \<Rightarrow> Some v | Some m \<Rightarrow> Some (if m < v then v else m))"
    by (auto simp add: speed_stats_update_finite max_def split: option.splits)
  have gt: "speed_stats_get s =
       \<lparr>view_min = min_speed s, view_max = max_speed s,
        average = (if 0 < count s then Some (total_speed s / real (count s)) else None)\<rparr>"
    by (simp add: speed_stats_get_def)
  show ?thesis
    using ex mn mx gt speed_stats_update_nonfinite [of speed s]
    by (simp add: speed_stats_update_finite)
qed

theorem speed_stats_update_spec_witness:
  "speed_stats_update (speed_stats_feed speed_stats_defaults [Some (Num 10), Some (Num 20)]) (Some NaN)
     = \<lparr>count = 2, total_speed = 30, min_speed = Some 10, max_speed = Some 20\<rparr>
   \<and> speed_stats_update (speed_stats_feed speed_stats_defaults [Some (Num 10), Some (Num 20)]) None
     = \<lparr>count = 2, total_speed = 30, min_speed = Some 10, max_speed = Some 20\<rparr>
   \<and> speed_stats_update (speed_stats_feed speed_stats_defaults [Some (Num 10), Some (Num 20)])
       (Some (Num 30))
     = \<lparr>count = 3, total_speed = 60, min_speed = Some 10, max_speed = Some 30\<rparr>
   \<and> speed_stats_get (speed_stats_feed speed_stats_defaults
         [Some (Num 10), Some (Num 20), Some (Num 30)])
       = \<lparr>view_min = Some 10, view_max = Some 30, average = Some 20\<rparr>
   \<and> average (speed_stats_get speed_stats_defaults) = None"
  using speed_stats_update_spec
      [of "Some NaN" "speed_stats_feed speed_stats_defaults [Some (Num 10), Some (Num 20)]" 30]
    speed_stats_update_spec
      [of None "speed_stats_feed speed_stats_defaults [Some (Num 10), Some (Num 20)]" 30]
  by (simp add: speed_stats_feed_def speed_stats_update_finite speed_stats_defaults_def
      speed_stats_get_def)

section \<open>Quarter-mile run and speed dropouts\<close>

lemma quarter_update_running:
  assumes "runStart s = Some start"
    and "\<not> js_ge (js_sub totalDistance (run_distance start)) (Num QUARTER_MILE_M)"
  shows "quarter_update s totalDistance speed timestamp =
     (if \<exists>v. speed = Some (Num v) \<and> v < 0.5
      then s\<lparr>status := Standby, runStart := None\<rparr>
      else s\<lparr>status :=
             (if js_gt (js_sub (Num QUARTER_MILE_M) (js_sub totalDistance (run_distance start))) (Num 0)
              then RunningLeft (js_sub (Num QUARTER_MILE_M) (js_sub totalDistance (run_distance start)))
              else Running)\<rparr>)"
proof (cases speed)
  case None
  with assms show ?thesis by (simp add: quarter_update_def Let_def shouldArmRun_def)
next
  case (Some n)
  with assms show ?thesis
    by (cases n) (simp_all add: quarter_update_def Let_def)
qed

text \<open>
  Claim C9. With a run armed and the distance covered not yet at 402.336 m, an update
  whose speed is null or not finite keeps the run: \<^verbatim>\<open>runStart\<close> stays, the status is a
  Running annotation (with the remaining distance when that is positive), and the two
  times stay as they are. The run is cleared, and the status is Standby, exactly when
  the speed is a finite number strictly below 0.5.
\<close>

theorem quarter_run_survives_speed_dropout:
  assumes "runStart s = Some start"
    and "\<not> js_ge (js_sub totalDistance (run_distance start)) (Num QUARTER_MILE_M)"
  shows "(\<not> Number_isFinite speed \<longrightarrow>
            runStart (quarter_update s totalDistance speed timestamp) = Some start
            \<and> status (quarter_update s totalDistance speed timestamp) =
                (if js_gt (js_sub (Num QUARTER_MILE_M) (js_sub totalDistance (run_distance start))) (Num 0)
                 then RunningLeft (js_sub (Num QUARTER_MILE_M) (js_sub totalDistance (run_distance start)))
                 else Running)
            \<and> lastTime (quarter_update s totalDistance speed timestamp) = lastTime s
            \<and> bestTime (quarter_update s totalDistance speed timestamp) = bestTime s)
     \<and> ((runStart (quarter_update s totalDistance speed timestamp) = None)
          = (\<exists>v. speed = Some (Num v) \<and> v < 0.5))
     \<and> ((status (quarter_update s totalDistance speed timestamp) = Standby)
          = (\<exists>v. speed = Some (Num v) \<and> v < 0.5))"
proof -
  have fin: "\<not> (\<exists>v. speed = Some (Num v) \<and> v < 0.5)" if "\<not> Number_isFinite speed"
    using that by auto
  show ?thesis
    unfolding quarter_update_running [OF assms]
    using assms(1) fin by auto
qed

theorem quarter_run_survives_speed_dropout_witness:
  "quarter_update
      \<lparr>bestTime = None, lastTime = None,
       runStart = Some \<lparr>run_distance = Num 0, run_time = Num 0\<rparr>, status = Running\<rparr>
      (Num 100) None (Num 5)
    = \<lparr>bestTime = None, lastTime = None,
       runStart = Some \<lparr>run_distance = Num 0, run_time = Num 0\<rparr>,
       status = RunningLeft (Num 302.336)\<rparr>
   \<and> quarter_update
      \<lparr>bestTime = None, lastTime = None,
       runStart = Some \<lparr>run_distance = Num 0, run_time = Num 0\<rparr>, status = Running\<rparr>
      (Num 100) (Some NaN) (Num 5)
    = \<lparr>bestTime = None, lastTime = None,
       runStart = Some \<lparr>run_distance = Num 0, run_time = Num 0\<rparr>,
       status = RunningLeft (Num 302.336)\<rparr>
   \<and> quarter_update
      \<lparr>bestTime = None, lastTime = None,
       runStart = Some \<lparr>run_distance = Num 0, run_time = Num 0\<rparr>, status = Running\<rparr>
      (Num 100) (Some (Num 0.2)) (Num 5)
    = \<lparr>bestTime = None, lastTime = None, runStart = None, status = Standby\<rparr>"
proof -
  let ?a = "\<lparr>run_distance = Num 0, run_time = Num 0\<rparr>"
  let ?s = "\<lparr>bestTime = None, lastTime = None, runStart = Some ?a, status = Running\<rparr>"
  have armed: "runStart ?s = Some ?a" by simp
  have below: "\<not> js_ge (js_sub (Num 100) (run_distance ?a)) (Num QUARTER_MILE_M)"
    by (simp add: js_ge_def js_sub_def QUARTER_MILE_M_def)
  show ?thesis
    using quarter_run_survives_speed_dropout [OF armed below, of None "Num 5"]
      quarter_run_survives_speed_dropout [OF armed below, of "Some NaN" "Num 5"]
      quarter_run_survives_speed_dropout [OF armed below, of "Some (Num 0.2)" "Num 5"]
    by (simp add: quarter_update_def Let_def shouldArmRun_def js_ge_def js_gt_def js_sub_def
        QUARTER_MILE_M_def)
qed

section \<open>Invariant of the speed statistics\<close>

lemma speed_stats_inv_defaults: "speed_stats_inv speed_stats_defaults"
  by (simp add: speed_stats_inv_def speed_stats_defaults_def)

lemma speed_stats_inv_update:
  "speed_stats_inv s \<Longrightarrow> speed_stats_inv (speed_stats_update s speed)"
proof (cases "Number_isFinite speed")
  case False
  assume "speed_stats_inv s"
  with False show ?thesis by (simp add: speed_stats_update_nonfinite)
next
  case True
  assume inv: "speed_stats_inv s"
  from True obtain v where v: "speed = Some (Num v)"
    by (cases speed rule: Number_isFinite.cases) auto
  show ?thesis
    using inv unfolding v speed_stats_update_finite speed_stats_inv_def
    by (auto split: option.splits)
qed

lemma speed_stats_inv_feed:
  "speed_stats_inv s \<Longrightarrow> speed_stats_inv (speed_stats_feed s speeds)"
  unfolding speed_stats_feed_def
  by (induction speeds arbitrary: s) (simp_all add: speed_stats_inv_update)

lemma speed_stats_feed_Cons:
  "speed_stats_feed s (x # xs) = speed_stats_feed (speed_stats_update s x) xs"
  by (simp add: speed_stats_feed_def)

lemma Min_insert_min:
  "finite S \<Longrightarrow> Min (insert (min a v) S) = min a (Min (insert v S))" for a v :: real
  by (cases "S = {}") (simp_all add: min.assoc)

lemma Max_insert_max:
  "finite S \<Longrightarrow> Max (insert (max a v) S) = max a (Max (insert v S))" for a v :: real
  by (cases "S = {}") (simp_all add: max.assoc)

lemma finite_speeds_nonfinite:
  "\<not> Number_isFinite x \<Longrightarrow> finite_speeds (x # xs) = finite_speeds xs"
  by (cases x rule: Number_isFinite.cases) simp_all

lemma speed_stats_feed_min:
  "min_speed (speed_stats_feed s speeds) =
     (case min_speed s of
        None \<Rightarrow> (if finite_speeds speeds = [] then None else Some (Min (set (finite_speeds speeds))))
      | Some m \<Rightarrow> Some (Min (insert m (set (finite_speeds speeds)))))"
proof (induction speeds arbitrary: s)
  case Nil
  show ?case by (simp add: speed_stats_feed_def split: option.splits)
next
  case (Cons x xs)
  show ?case
  proof (cases "Number_isFinite x")
    case False
    then show ?thesis
      unfolding speed_stats_feed_Cons Cons.IH
      by (simp add: speed_stats_update_nonfinite finite_speeds_nonfinite split: option.splits)
  next
    case True
    then obtain v where v: "x = Some (Num v)"
      by (cases x rule: Number_isFinite.cases) simp_all
    show ?thesis
      unfolding speed_stats_feed_Cons Cons.IH v
      by (cases "min_speed s") (simp_all add: speed_stats_update_finite Min_insert_min)
  qed
qed

lemma speed_stats_feed_max:
  "max_speed (speed_stats_feed s speeds) =
     (case max_speed s of
        None \<Rightarrow> (if finite_speeds speeds = [] then None else Some (Max (set (finite_speeds speeds))))
      | Some m \<Rightarrow> Some (Max (insert m (set (finite_speeds speeds)))))"
proof (induction speeds arbitrary: s)
  case Nil
  show ?case by (simp add: speed_stats_feed_def split: option.splits)
next
  case (Cons x xs)
  show ?case
  proof (cases "Number_isFinite x")
    case False
    then show ?thesis
      unfolding speed_stats_feed_Cons Cons.IH
      by (simp add: speed_stats_update_nonfinite finite_speeds_nonfinite split: option.splits)
  next
    case True
    then obtain v where v: "x = Some (Num v)"
      by (cases x rule: Number_isFinite.cases) simp_all
    show ?thesis
      unfolding speed_stats_feed_Cons Cons.IH v
      by (cases "max_speed s") (simp_all add: speed_stats_update_finite Max_insert_max)
  qed
qed

lemma speed_stats_feed_count:
  "count (speed_stats_feed s speeds) = count s + length (finite_speeds speeds)"
proof (induction speeds arbitrary: s)
  case Nil
  show ?case by (simp add: speed_stats_feed_def)
next
  case (Cons x xs)
  show ?case
  proof (cases "Number_isFinite x")
    case False
    then show ?thesis
      unfolding speed_stats_feed_Cons Cons.IH
      by (simp add: speed_stats_update_nonfinite finite_speeds_nonfinite)
  next
    case True
    then obtain v where v: "x = Some (Num v)"
      by (cases x rule: Number_isFinite.cases) simp_all
    show ?thesis
      unfolding speed_stats_feed_Cons Cons.IH v by (simp add: speed_stats_update_finite)
  qed
qed

text \<open>
  Claim C10. The invariant of the speed statistics (the count is 0 exactly when the
  minimum is null and exactly when the maximum is null, and a minimum is at most the
  maximum) holds for the defaults and after \<^verbatim>\<open>reset\<close>, and every \<^verbatim>\<open>update\<close>, so every list
  of updates, preserves it. After a reset and a list of updates, the count is the
  number of finite speeds among them, and the minimum and the maximum are the least
  and the greatest of these finite speeds (null when there is none).
\<close>

theorem speed_stats_invariant:
  "speed_stats_inv speed_stats_defaults
   \<and> speed_stats_inv (speed_stats_reset s)
   \<and> (speed_stats_inv s \<longrightarrow> speed_stats_inv (speed_stats_update s speed))
   \<and> (speed_stats_inv s \<longrightarrow> speed_stats_inv (speed_stats_feed s speeds))
   \<and> count (speed_stats_feed (speed_stats_reset s) speeds) = length (finite_speeds speeds)
   \<and> min_speed (speed_stats_feed (speed_stats_reset s) speeds) =
       (if finite_speeds speeds = [] then None else Some (Min (set (finite_speeds speeds))))
   \<and> max_speed (speed_stats_feed (speed_stats_reset s) speeds) =
       (if finite_speeds speeds = [] then None else Some (Max (set (finite_speeds speeds))))"
  using speed_stats_inv_defaults speed_stats_inv_update [of s speed]
    speed_stats_inv_feed [of s speeds]
    speed_stats_feed_count [of speed_stats_defaults speeds]
    speed_stats_feed_min [of speed_stats_defaults speeds]
    speed_stats_feed_max [of speed_stats_defaults speeds]
  by (simp add: speed_stats_reset_def speed_stats_defaults_def)

theorem speed_stats_invariant_witness:
  "speed_stats_inv speed_stats_defaults
   \<and> speed_stats_feed speed_stats_defaults [Some (Num 20), None, Some (Num 10), Some NaN, Some (Num 30)]
     = \<lparr>count = 3, total_speed = 60, min_speed = Some 10, max_speed = Some 30\<rparr>
   \<and> speed_stats_inv
       (speed_stats_feed speed_stats_defaults [Some (Num 20), None, Some (Num 10), Some NaN, Some (Num 30)])
   \<and> speed_stats_inv (speed_stats_update speed_stats_defaults (Some (Num 20)))
   \<and> Min (set (finite_speeds [Some (Num 20), None, Some (Num 10), Some NaN, Some (Num 30)])) = 10"
proof -
  have run: "speed_stats_feed speed_stats_defaults
       [Some (Num 20), None, Some (Num 10), Some NaN, Some (Num 30)]
     = \<lparr>count = 3, total_speed = 60, min_speed = Some 10, max_speed = Some 30\<rparr>"
    by (simp add: speed_stats_feed_def speed_stats_update_def speed_stats_defaults_def)
  have d: "speed_stats_inv speed_stats_defaults"
    by (simp add: speed_stats_inv_def speed_stats_defaults_def)
  show ?thesis
    using d run
      speed_stats_invariant [of speed_stats_defaults "Some (Num 20)"
        "[Some (Num 20), None, Some (Num 10), Some NaN, Some (Num 30)]"]
    by (simp add: speed_stats_reset_def)
qed

end
